theory Spec2Isabelle
  imports Main
begin

section \<open>JavaScript values\<close>

text \<open>
  The values the favourites endpoint (api/recipes/favourite) reads from a request body and
  writes to a response body. Numbers are the integers (recipe identifiers are integers; an
  \<open>int\<close> stands for the Number of that value) plus \<open>NaN\<close>, which \<open>parseInt\<close> returns on
  a string without digits. An object is the list of its properties; a property read takes
  the first entry of that name.
\<close>

datatype jsval =
    JUndefined
  | JNull
  | JBool bool
  | JNum int
  | JNaN
  | JStr string
  | JArr "jsval list"
  | JObj "(string \<times> jsval) list"

text \<open>\<open>!v\<close> is \<open>\<not> truthy v\<close>: the falsy values are undefined, null, false, 0, NaN and "".\<close>

fun truthy :: "jsval \<Rightarrow> bool" where
  "truthy JUndefined = False"
| "truthy JNull = False"
| "truthy (JBool b) = b"
| "truthy (JNum n) = (n \<noteq> 0)"
| "truthy JNaN = False"
| "truthy (JStr s) = (s \<noteq> [])"
| "truthy (JArr xs) = True"
| "truthy (JObj fs) = True"

text \<open>\<open>v.k\<close> on a value that is neither undefined nor null: undefined when there is no such property.\<close>

fun get_prop :: "jsval \<Rightarrow> string \<Rightarrow> jsval" where
  "get_prop (JObj fs) k = (case map_of fs k of Some x \<Rightarrow> x | None \<Rightarrow> JUndefined)"
| "get_prop v k = JUndefined"

text \<open>
  A thrown value: an instance of \<open>Error\<close> (it has a message, and a \<open>code\<close> property that is
  undefined unless it was set), or anything else (\<open>instanceof Error\<close> is false; its
  \<open>message\<close> property is a string or undefined). Of the values that are no \<open>Error\<close>,
  \<open>NonError\<close> are those that \<open>String(v)\<close> converts and \<open>Unprintable\<close> those on which
  \<open>String(v)\<close> itself throws (an object without a usable \<open>toString\<close>).
\<close>

datatype thrown =
    ErrorObj jsval string
  | NonError jsval "string option"
  | Unprintable jsval "string option"

fun err_code :: "thrown \<Rightarrow> jsval" where
  "err_code (ErrorObj c m) = c"
| "err_code (NonError c m) = c"
| "err_code (Unprintable c m) = c"

fun instanceof_Error :: "thrown \<Rightarrow> bool" where
  "instanceof_Error (ErrorObj c m) = True"
| "instanceof_Error (NonError c m) = False"
| "instanceof_Error (Unprintable c m) = False"

section \<open>Strings and numbers\<close>

text \<open>\<open>s.includes(sub)\<close>: \<open>sub\<close> occurs in \<open>s\<close> as a contiguous run of characters.\<close>

definition startsWith :: "string \<Rightarrow> string \<Rightarrow> bool" where
  "startsWith s sub = (take (length sub) s = sub)"

fun str_includes :: "string \<Rightarrow> string \<Rightarrow> bool" where
  "str_includes [] sub = (sub = [])"
| "str_includes (c # cs) sub = (startsWith (c # cs) sub \<or> str_includes cs sub)"

text \<open>\<open>e?.message?.includes(sub)\<close>, read as a condition: undefined counts as false.\<close>

fun message_includes :: "thrown \<Rightarrow> string \<Rightarrow> bool" where
  "message_includes (ErrorObj c m) sub = str_includes m sub"
| "message_includes (NonError c None) sub = False"
| "message_includes (NonError c (Some m)) sub = str_includes m sub"
| "message_includes (Unprintable c None) sub = False"
| "message_includes (Unprintable c (Some m)) sub = str_includes m sub"

text \<open>
  \<open>Number.prototype.toString\<close> on a Number whose value is an integer. Below \<open>10^21\<close> in
  magnitude the result is the decimal digits, after a minus sign when negative. From
  \<open>10^21\<close> on it is exponential notation: the shortest digit string \<open>s\<close> such that
  \<open>s * 10^e\<close> rounds to the Number (the nearest to it when several do, the even one on a
  tie), written with a point after its first digit and followed by \<open>e+\<close> and the exponent.
  An \<open>int\<close> stands for a Number only when a double holds it exactly; the safe integers
  (magnitude at most \<open>2^53 - 1\<close>) all are.
\<close>

definition safe_integer :: "int \<Rightarrow> bool" where
  "safe_integer n = (\<bar>n\<bar> \<le> 9007199254740991)"

definition digit_char :: "nat \<Rightarrow> char" where
  "digit_char d = char_of (48 + d)"

fun digits :: "nat \<Rightarrow> string" where
  "digits n = (if n < 10 then [digit_char n] else digits (n div 10) @ [digit_char (n mod 10)])"

declare digits.simps [simp del]

text \<open>The number of binary digits of a natural number.\<close>

fun bitlen :: "nat \<Rightarrow> nat" where
  "bitlen n = (if n = 0 then 0 else Suc (bitlen (n div 2)))"

declare bitlen.simps [simp del]

text \<open>
  The double nearest to a natural number (below the overflow threshold): 53 significant
  bits are kept, rounding to nearest, to the even mantissa on a tie.
\<close>

definition round53 :: "nat \<Rightarrow> nat" where
  "round53 v =
     (let b = bitlen v in
      if b \<le> 53 then v
      else
        (let sh = b - 53;
             q = v div 2 ^ sh;
             r = v mod 2 ^ sh;
             h = 2 ^ (sh - 1)
         in (if h < r \<or> (r = h \<and> odd q) then q + 1 else q) * 2 ^ sh))"

text \<open>
  The \<open>k\<close>-digit significand for \<open>x\<close> (a number of \<open>len\<close> digits), if there is one: of
  the two multiples of \<open>10^(len - k)\<close> around \<open>x\<close>, those that round to \<open>x\<close>, the nearer
  first, the even one on a tie.
\<close>

definition significand :: "nat \<Rightarrow> nat \<Rightarrow> nat \<Rightarrow> nat option" where
  "significand x len k =
     (let p = 10 ^ (len - k);
          lo = x div p;
          hi = lo + 1;
          lo_ok = (round53 (lo * p) = x);
          hi_ok = (round53 (hi * p) = x);
          dlo = x - lo * p;
          dhi = hi * p - x
      in if lo_ok \<and> hi_ok
         then (if dlo < dhi then Some lo else if dhi < dlo then Some hi
               else if even lo then Some lo else Some hi)
         else if lo_ok then Some lo
         else if hi_ok then Some hi
         else None)"

text \<open>
  The shortest significand, searched from \<open>k\<close> digits upwards; 17 digits determine every
  double, so the search from 1 with 17 steps finds one for every Number.
\<close>

fun shortest :: "nat \<Rightarrow> nat \<Rightarrow> nat \<Rightarrow> nat \<Rightarrow> nat \<times> nat" where
  "shortest 0 k x len = (x div 10 ^ (len - k), k)"
| "shortest (Suc fuel) k x len =
     (case significand x len k of
        Some s \<Rightarrow> (s, k)
      | None \<Rightarrow> shortest fuel (Suc k) x len)"

definition exponential :: "nat \<Rightarrow> string" where
  "exponential x =
     (let len = length (digits x);
          (s, k) = shortest 17 1 x len;
          (s', n) = (if s = 10 ^ k then (10 ^ (k - 1), Suc len) else (s, len))
      in (case digits s' of
            [] \<Rightarrow> []
          | c # rest \<Rightarrow> if rest = [] then [c] else c # CHR ''.'' # rest)
         @ ''e+'' @ digits (n - 1))"

definition toString :: "int \<Rightarrow> string" where
  "toString n =
     (let render = (\<lambda>x. if x < 10 ^ 21 then digits x else exponential x)
      in if n < 0 then CHR ''-'' # render (nat (- n)) else render (nat n))"

text \<open>
  \<open>parseInt(s)\<close> without a radix: leading white space is skipped, then an optional sign,
  then the prefix \<open>0x\<close> or \<open>0X\<close> selects radix 16, otherwise radix 10; the longest run of
  digits of that radix is read, and the result is \<open>NaN\<close> (here \<open>None\<close>) when it is empty,
  otherwise the double nearest to the number read, with its sign.
\<close>

definition is_space :: "char \<Rightarrow> bool" where
  "is_space c = (of_char c \<in> {9, 10, 11, 12, 13, 32 :: nat})"

definition digit_of :: "nat \<Rightarrow> char \<Rightarrow> nat option" where
  "digit_of radix c =
     (let n = of_char c :: nat;
          v = (if 48 \<le> n \<and> n \<le> 57 then Some (n - 48)
               else if 97 \<le> n \<and> n \<le> 122 then Some (n - 87)
               else if 65 \<le> n \<and> n \<le> 90 then Some (n - 55)
               else None)
      in case v of None \<Rightarrow> None | Some d \<Rightarrow> if d < radix then Some d else None)"

fun parse_digits :: "nat \<Rightarrow> nat option \<Rightarrow> string \<Rightarrow> nat option" where
  "parse_digits radix acc [] = acc"
| "parse_digits radix acc (c # cs) =
     (case digit_of radix c of
        None \<Rightarrow> acc
      | Some d \<Rightarrow>
          parse_digits radix (Some ((case acc of None \<Rightarrow> 0 | Some a \<Rightarrow> a) * radix + d)) cs)"

definition strip_sign :: "string \<Rightarrow> bool \<times> string" where
  "strip_sign s =
     (case s of
        [] \<Rightarrow> (False, [])
      | c # r \<Rightarrow> if c = CHR ''-'' then (True, r) else if c = CHR ''+'' then (False, r) else (False, s))"

definition strip_radix :: "string \<Rightarrow> nat \<times> string" where
  "strip_radix s =
     (case s of
        a # b # r \<Rightarrow>
          if a = CHR ''0'' \<and> (b = CHR ''x'' \<or> b = CHR ''X'') then (16, r) else (10, s)
      | _ \<Rightarrow> (10, s))"

definition parseInt :: "string \<Rightarrow> int option" where
  "parseInt s =
     (let (neg, s2) = strip_sign (dropWhile is_space s);
          (radix, s3) = strip_radix s2
      in map_option (\<lambda>n. if neg then - int (round53 n) else int (round53 n))
           (parse_digits radix None s3))"

definition js_number :: "int option \<Rightarrow> jsval" where
  "js_number r = (case r of None \<Rightarrow> JNaN | Some n \<Rightarrow> JNum n)"

section \<open>Request, response and the collaborators of the handler\<close>

record request =
  req_method :: "string option"
  req_body :: jsval

text \<open>
  The response object: the status code set so far, its headers, and, once \<open>json\<close> or
  \<open>end\<close> has been called, the body that was sent (\<open>None\<close> for an empty one).
\<close>

record response =
  status :: nat
  headers :: "(string \<times> string) list"
  body :: "jsval option"
  sent :: bool

text \<open>\<open>response.setHeader(name, value)\<close> replaces a header of the same name.\<close>

definition setHeader :: "string \<Rightarrow> string \<Rightarrow> response \<Rightarrow> response" where
  "setHeader name v response =
     response\<lparr>headers := (name, v) # filter (\<lambda>h. fst h \<noteq> name) (headers response)\<rparr>"

definition res_status :: "nat \<Rightarrow> response \<Rightarrow> response" where
  "res_status code response = response\<lparr>status := code\<rparr>"

definition res_json :: "jsval \<Rightarrow> response \<Rightarrow> response" where
  "res_json v response = response\<lparr>body := Some v, sent := True\<rparr>"

definition res_end :: "response \<Rightarrow> response" where
  "res_end response = response\<lparr>body := None, sent := True\<rparr>"

text \<open>A row of the favourites table, as far as the handler reads it.\<close>

record fav_row =
  recipeId :: int

text \<open>
  The two collaborators are parameters of the handler. The ORM client (lib/prisma) works on
  a store of type \<open>'st\<close>: \<open>findMany\<close> is a query, \<open>create\<close> and \<open>delete\<close> return the
  store they leave behind; each may throw. \<open>getFavouriteRecipesByIDs\<close> (lib/recipe-api)
  returns the value the handler sends back, or throws.
\<close>

record 'st env =
  favouriteRecipes_findMany :: "'st \<Rightarrow> thrown + fav_row list"
  favouriteRecipes_create :: "'st \<Rightarrow> jsval \<Rightarrow> (thrown + jsval) \<times> 'st"
  favouriteRecipes_delete :: "'st \<Rightarrow> jsval \<Rightarrow> (thrown + unit) \<times> 'st"
  getFavouriteRecipesByIDs :: "string list \<Rightarrow> thrown + jsval"

datatype db_op = FindMany | Create jsval | Delete jsval

text \<open>
  What a request leaves behind: the store, the operations issued on it, and the argument
  of every call of \<open>getFavouriteRecipesByIDs\<close>, both in order.
\<close>

record 'st world =
  store :: 'st
  db_log :: "db_op list"
  api_log :: "string list list"

section \<open>The handler\<close>

definition setCorsHeaders :: "response \<Rightarrow> response" where
  "setCorsHeaders response =
     setHeader ''Access-Control-Allow-Headers'' ''Content-Type''
       (setHeader ''Access-Control-Allow-Methods'' ''GET, POST, DELETE, OPTIONS''
         (setHeader ''Access-Control-Allow-Origin'' ''*'' response))"

text \<open>
  \<open>const { recipeId } = request.body\<close>: a TypeError when the body is undefined or null
  (the engine's message names the property and the source expression).
\<close>

definition destructure_recipeId :: "jsval \<Rightarrow> thrown + jsval" where
  "destructure_recipeId b =
     (if b = JUndefined \<or> b = JNull
      then Inl (ErrorObj JUndefined ''Cannot destructure property recipeId of request.body.'')
      else Inr (get_prop b ''recipeId''))"

definition isApiLimitError :: "thrown \<Rightarrow> bool" where
  "isApiLimitError apiError =
     (err_code apiError = JNum 402 \<or>
      message_includes apiError ''points limit'' \<or>
      message_includes apiError ''daily limit'')"

definition degraded_record :: "string \<Rightarrow> jsval" where
  "degraded_record i =
     JObj [(''id'', js_number (parseInt i)),
           (''title'', JStr (''Recipe #'' @ i @ '' (Details unavailable - API limit reached)'')),
           (''image'', JNull),
           (''_apiUnavailable'', JBool True)]"

definition post_favourite ::
  "'st env \<Rightarrow> request \<Rightarrow> response \<Rightarrow> 'st world \<Rightarrow> (thrown + response) \<times> 'st world" where
  "post_favourite e request response w =
     (case destructure_recipeId (req_body request) of
        Inl err \<Rightarrow> (Inl err, w)
      | Inr rid \<Rightarrow>
          if \<not> truthy rid
          then (Inr (res_json (JObj [(''error'', JStr ''Recipe ID is required'')])
                      (res_status 400 response)), w)
          else
            (let w1 = w\<lparr>db_log := db_log w @ [Create rid]\<rparr> in
             case favouriteRecipes_create e (store w) rid of
               (Inl err, st) \<Rightarrow> (Inl err, w1\<lparr>store := st\<rparr>)
             | (Inr favouriteRecipe, st) \<Rightarrow>
                 (Inr (res_json favouriteRecipe (res_status 201 response)), w1\<lparr>store := st\<rparr>)))"

definition get_favourites ::
  "'st env \<Rightarrow> request \<Rightarrow> response \<Rightarrow> 'st world \<Rightarrow> (thrown + response) \<times> 'st world" where
  "get_favourites e request response w =
     (let w1 = w\<lparr>db_log := db_log w @ [FindMany]\<rparr> in
      case favouriteRecipes_findMany e (store w) of
        Inl err \<Rightarrow> (Inl err, w1)
      | Inr recipes \<Rightarrow>
          (let recipeIds = map (\<lambda>recipe. toString (recipeId recipe)) recipes in
           if length recipeIds = 0
           then (Inr (res_json (JObj [(''results'', JArr [])]) (res_status 200 response)), w1)
           else
             (let w2 = w1\<lparr>api_log := api_log w1 @ [recipeIds]\<rparr> in
              case getFavouriteRecipesByIDs e recipeIds of
                Inr favourites \<Rightarrow> (Inr (res_json favourites (res_status 200 response)), w2)
              | Inl apiError \<Rightarrow>
                  if isApiLimitError apiError
                  then (Inr (res_json
                               (JObj [(''results'', JArr (map degraded_record recipeIds)),
                                      (''_message'', JStr ''Your favourites are saved, but recipe details are temporarily unavailable due to API daily limit. They will appear once the limit resets.'')])
                               (res_status 200 response)), w2)
                  else (Inl apiError, w2))))"

definition delete_favourite ::
  "'st env \<Rightarrow> request \<Rightarrow> response \<Rightarrow> 'st world \<Rightarrow> (thrown + response) \<times> 'st world" where
  "delete_favourite e request response w =
     (case destructure_recipeId (req_body request) of
        Inl err \<Rightarrow> (Inl err, w)
      | Inr rid \<Rightarrow>
          if \<not> truthy rid
          then (Inr (res_json (JObj [(''error'', JStr ''Recipe ID is required'')])
                      (res_status 400 response)), w)
          else
            (let w1 = w\<lparr>db_log := db_log w @ [Delete rid]\<rparr> in
             case favouriteRecipes_delete e (store w) rid of
               (Inl err, st) \<Rightarrow> (Inl err, w1\<lparr>store := st\<rparr>)
             | (Inr u, st) \<Rightarrow> (Inr (res_end (res_status 204 response)), w1\<lparr>store := st\<rparr>)))"

text \<open>The body of the \<open>try\<close> block: the first method that matches answers.\<close>

definition handler_try ::
  "'st env \<Rightarrow> request \<Rightarrow> response \<Rightarrow> 'st world \<Rightarrow> (thrown + response) \<times> 'st world" where
  "handler_try e request response w =
     (if req_method request = Some ''POST'' then post_favourite e request response w
      else if req_method request = Some ''GET'' then get_favourites e request response w
      else if req_method request = Some ''DELETE'' then delete_favourite e request response w
      else (Inr (res_json (JObj [(''error'', JStr ''Method not allowed'')])
                  (res_status 405 response)), w))"

text \<open>
  The logging that opens the \<open>catch\<close> block writes the type of the error, then
  \<open>error instanceof Error ? error.message : String(error)\<close>, then for an \<open>Error\<close> its
  stack and a diagnosis of "Authentication failed". It leaves the response alone; it throws
  exactly when \<open>String(error)\<close> does.
\<close>

fun logging_throws :: "thrown \<Rightarrow> bool" where
  "logging_throws (ErrorObj c m) = False"
| "logging_throws (NonError c m) = False"
| "logging_throws (Unprintable c m) = True"

text \<open>
  The \<open>catch\<close> block. When its logging throws, the block is left before any answer: the
  promise of the handler rejects and the response stays as it was, unsent.
\<close>

definition handler_catch :: "thrown \<Rightarrow> response \<Rightarrow> response" where
  "handler_catch error response =
     (if logging_throws error then response
      else if instanceof_Error error \<and> message_includes error ''Unique constraint''
      then res_json (JObj [(''error'', JStr ''Recipe is already in favorites'')])
             (res_status 409 response)
      else res_json
             (JObj [(''error'', JStr ''Oops, something went wrong''),
                    (''message'', JStr (case error of
                                          ErrorObj c m \<Rightarrow> m
                                        | NonError c m \<Rightarrow> ''Unknown error''
                                        | Unprintable c m \<Rightarrow> ''Unknown error''))])
             (res_status 500 response))"

definition handler :: "'st env \<Rightarrow> request \<Rightarrow> response \<Rightarrow> 'st world \<Rightarrow> response \<times> 'st world" where
  "handler e request response w =
     (if req_method request = Some ''OPTIONS''
      then (res_end (res_status 200 (setCorsHeaders response)), w)
      else
        (let response1 = setCorsHeaders response in
         case handler_try e request response1 w of
           (Inr answered, w') \<Rightarrow> (answered, w')
         | (Inl error, w') \<Rightarrow> (handler_catch error response1, w')))"

definition cors_set :: "response \<Rightarrow> bool" where
  "cors_set r =
     (map_of (headers r) ''Access-Control-Allow-Origin'' = Some ''*'' \<and>
      map_of (headers r) ''Access-Control-Allow-Methods'' = Some ''GET, POST, DELETE, OPTIONS'' \<and>
      map_of (headers r) ''Access-Control-Allow-Headers'' = Some ''Content-Type'')"

text \<open>The elements of the \<open>results\<close> array of a response body (none when there is no such array).\<close>

definition results_of :: "response \<Rightarrow> jsval list" where
  "results_of r =
     (case body r of
        None \<Rightarrow> []
      | Some v \<Rightarrow> (case get_prop v ''results'' of JArr xs \<Rightarrow> xs | _ \<Rightarrow> []))"

text \<open>The \<open>id\<close> of each element of the \<open>results\<close> array, in order.\<close>

definition result_ids :: "response \<Rightarrow> jsval list" where
  "result_ids r = map (\<lambda>d. get_prop d ''id'') (results_of r)"

text \<open>The \<open>_apiUnavailable\<close> flag of each element of the \<open>results\<close> array, in order.\<close>

definition result_flags :: "response \<Rightarrow> jsval list" where
  "result_flags r = map (\<lambda>d. get_prop d ''_apiUnavailable'') (results_of r)"

section \<open>The favourites table\<close>

text \<open>
  Modelled from the spec: the persisted favourites store behind lib/prisma (the database and
  its schema are not among the sources). Section 6 gives it \<open>create(recipeId)\<close>,
  \<open>list()\<close> and \<open>delete(recipeId)\<close>, with a uniqueness violation surfacing as a
  distinguishable error. The table is the list of favourited recipe ids in insertion order;
  a value that is not an integer is refused, and deleting an absent id throws, as the ORM does.
\<close>

text \<open>
  Modelled from the spec: \<open>list()\<close> of the persisted favourites store (section 6).
\<close>

definition table_findMany :: "int list \<Rightarrow> thrown + fav_row list" where
  "table_findMany st = Inr (map (\<lambda>n. \<lparr>recipeId = n\<rparr>) st)"

text \<open>
  Modelled from the spec: \<open>create(recipeId)\<close> of the persisted favourites store (section 6),
  whose uniqueness violation is an error of its own; the text of that error is the ORM's.
\<close>

definition table_create :: "int list \<Rightarrow> jsval \<Rightarrow> (thrown + jsval) \<times> int list" where
  "table_create st rid =
     (case rid of
        JNum n \<Rightarrow>
          if n \<in> set st
          then (Inl (ErrorObj (JStr ''P2002'') ''Unique constraint failed on the fields: (recipeId)''), st)
          else (Inr (JObj [(''recipeId'', JNum n)]), st @ [n])
      | _ \<Rightarrow> (Inl (ErrorObj JUndefined ''Argument recipeId: invalid value, expected Int.''), st))"

text \<open>
  Modelled from the spec: \<open>delete(recipeId)\<close> of the persisted favourites store (section 6).
\<close>

definition table_delete :: "int list \<Rightarrow> jsval \<Rightarrow> (thrown + unit) \<times> int list" where
  "table_delete st rid =
     (case rid of
        JNum n \<Rightarrow>
          if n \<in> set st
          then (Inr (), removeAll n st)
          else (Inl (ErrorObj (JStr ''P2025'') ''Record to delete does not exist.''), st)
      | _ \<Rightarrow> (Inl (ErrorObj JUndefined ''Argument recipeId: invalid value, expected Int.''), st))"

definition table_env :: "(string list \<Rightarrow> thrown + jsval) \<Rightarrow> int list env" where
  "table_env resolver =
     \<lparr>favouriteRecipes_findMany = table_findMany,
      favouriteRecipes_create = table_create,
      favouriteRecipes_delete = table_delete,
      getFavouriteRecipesByIDs = resolver\<rparr>"

text \<open>
  A database that cannot be reached: every operation throws the connection error that the
  \<open>catch\<close> block of the handler looks for in its diagnostics.
\<close>

definition connection_error :: thrown where
  "connection_error = ErrorObj JUndefined ''Authentication failed against database server''"

definition unreachable_env :: "(string list \<Rightarrow> thrown + jsval) \<Rightarrow> int list env" where
  "unreachable_env resolver =
     \<lparr>favouriteRecipes_findMany = (\<lambda>st. Inl connection_error),
      favouriteRecipes_create = (\<lambda>st rid. (Inl connection_error, st)),
      favouriteRecipes_delete = (\<lambda>st rid. (Inl connection_error, st)),
      getFavouriteRecipesByIDs = resolver\<rparr>"

definition fresh_response :: response where
  "fresh_response = \<lparr>status = 200, headers = [], body = None, sent = False\<rparr>"

definition world_of :: "'st \<Rightarrow> 'st world" where
  "world_of st = \<lparr>store = st, db_log = [], api_log = []\<rparr>"

section \<open>The key rotator\<close>

text \<open>
  Modelled from the spec: the Key Rotator of lib/api-key-tracker, which is not among the
  sources. Section 3: a credential is an opaque identifier with a quota state, kept in an
  ordered list from which nothing is removed; section 4.1: \<open>selectCredential\<close> goes through
  the credentials in priority order, skips those marked exhausted and returns the first
  usable one, or fails with NoCredentialsAvailable; \<open>markExhausted\<close> sets the flag of the
  credential and is idempotent.
\<close>

text \<open>Modelled from the spec: the quota state of a credential (section 3).\<close>

datatype quota = Ok | Exhausted | Unknown

text \<open>Modelled from the spec: a credential, an opaque identifier with its quota state (section 3).\<close>


record credential =
  cred_id :: string
  quota_state :: quota

text \<open>Modelled from the spec: the failure of \<open>selectCredential\<close> (sections 4.1 and 7).\<close>

datatype rotator_error = NoCredentialsAvailable

text \<open>
  Modelled from the spec: \<open>selectCredential\<close> of the Key Rotator (section 4.1): the first
  credential, in the order of the list, that is not marked exhausted.
\<close>


definition selectCredential :: "credential list \<Rightarrow> rotator_error + credential" where
  "selectCredential cs =
     (case find (\<lambda>k. quota_state k \<noteq> Exhausted) cs of
        None \<Rightarrow> Inl NoCredentialsAvailable
      | Some k \<Rightarrow> Inr k)"

text \<open>
  Modelled from the spec: \<open>markExhausted\<close> of the Key Rotator (section 4.1), the credential
  being named by its identifier; the list keeps its order and its length.
\<close>

definition markExhausted :: "string \<Rightarrow> credential list \<Rightarrow> credential list" where
  "markExhausted c cs = map (\<lambda>k. if cred_id k = c then k\<lparr>quota_state := Exhausted\<rparr> else k) cs"

text \<open>
  Modelled from the spec: an execution of the Key Rotator within one process, a sequence of
  its two operations (section 4.1 names no other). It yields what each
  \<open>selectCredential\<close> returned, in order, and the final state.
\<close>

datatype rotator_op = Select | Mark string

fun run_rotator :: "rotator_op list \<Rightarrow> credential list \<Rightarrow> (rotator_error + credential) list \<times> credential list" where
  "run_rotator [] cs = ([], cs)"
| "run_rotator (Select # ops) cs =
     (let (rs, cs') = run_rotator ops cs in (selectCredential cs # rs, cs'))"
| "run_rotator (Mark c # ops) cs = run_rotator ops (markExhausted c cs)"

definition returns_credential :: "string \<Rightarrow> rotator_error + credential \<Rightarrow> bool" where
  "returns_credential c r = (case r of Inl err \<Rightarrow> False | Inr k \<Rightarrow> cred_id k = c)"

text \<open>The flag of every credential named \<open>c\<close> is set; the flag of every credential is set.\<close>

definition exhausted_in :: "string \<Rightarrow> credential list \<Rightarrow> bool" where
  "exhausted_in c cs = list_all (\<lambda>k. cred_id k = c \<longrightarrow> quota_state k = Exhausted) cs"

definition all_exhausted :: "credential list \<Rightarrow> bool" where
  "all_exhausted cs = list_all (\<lambda>k. quota_state k = Exhausted) cs"

section \<open>Concrete collaborators\<close>

text \<open>Resolvers with a fixed outcome, for running the handler on concrete requests.\<close>

definition throwing_resolver :: "thrown \<Rightarrow> string list \<Rightarrow> thrown + jsval" where
  "throwing_resolver err ids = Inl err"

definition constant_resolver :: "jsval \<Rightarrow> string list \<Rightarrow> thrown + jsval" where
  "constant_resolver v ids = Inr v"

section \<open>Decimal rendering and parsing are inverse\<close>

lemma of_char_digit_char: "d < 10 \<Longrightarrow> (of_char (digit_char d) :: nat) = 48 + d"
  by (simp add: digit_char_def)

lemma digit_of_digit_char: "d < 10 \<Longrightarrow> digit_of 10 (digit_char d) = Some d"
  by (simp add: digit_of_def of_char_digit_char)

lemma digits_not_Nil: "digits n \<noteq> []"
  by (subst digits.simps) simp

lemma digits_all_decimal: "c \<in> set (digits n) \<Longrightarrow> \<exists>d<10. c = digit_char d"
proof (induction n arbitrary: c rule: digits.induct)
  case (1 n)
  show ?case
  proof (cases "n < 10")
    case True
    with "1.prems" show ?thesis by (subst (asm) digits.simps) auto
  next
    case False
    from "1.prems" have "c \<in> set (digits (n div 10)) \<or> c = digit_char (n mod 10)"
      using False by (subst (asm) digits.simps) auto
    then show ?thesis
    proof
      assume "c \<in> set (digits (n div 10))"
      with "1.IH" False show ?thesis by blast
    next
      assume "c = digit_char (n mod 10)"
      moreover have "n mod 10 < 10" by simp
      ultimately show ?thesis by blast
    qed
  qed
qed

lemma parse_digits_snoc:
  "\<forall>c\<in>set xs. digit_of r c \<noteq> None \<Longrightarrow> digit_of r c = Some d \<Longrightarrow>
   parse_digits r acc (xs @ [c]) =
     Some ((case parse_digits r acc xs of None \<Rightarrow> 0 | Some a \<Rightarrow> a) * r + d)"
  by (induction xs arbitrary: acc) auto

lemma parse_digits_digits: "parse_digits 10 None (digits n) = Some n"
proof (induction n rule: digits.induct)
  case (1 n)
  show ?case
  proof (cases "n < 10")
    case True
    then show ?thesis by (subst digits.simps) (simp add: digit_of_digit_char)
  next
    case False
    have all: "\<forall>c\<in>set (digits (n div 10)). digit_of 10 c \<noteq> None"
      using digits_all_decimal digit_of_digit_char by fastforce
    have last: "digit_of 10 (digit_char (n mod 10)) = Some (n mod 10)"
      by (simp add: digit_of_digit_char)
    have "parse_digits 10 None (digits n) =
            parse_digits 10 None (digits (n div 10) @ [digit_char (n mod 10)])"
      using False by (subst digits.simps) simp
    also have "\<dots> = Some (n div 10 * 10 + n mod 10)"
      using parse_digits_snoc [OF all last, of None] "1.IH" False by simp
    finally show ?thesis by simp
  qed
qed

lemma hd_digits: "\<exists>d<10. \<exists>r. digits n = digit_char d # r"
proof (cases "digits n")
  case Nil
  then show ?thesis using digits_not_Nil [of n] by simp
next
  case (Cons c r)
  then have "c \<in> set (digits n)" by simp
  from digits_all_decimal [OF this] obtain d where "d < 10" "c = digit_char d" by auto
  with Cons show ?thesis by auto
qed

lemma digit_char_plain:
  assumes d: "d < 10"
  shows "\<not> is_space (digit_char d) \<and> digit_char d \<noteq> CHR ''-'' \<and> digit_char d \<noteq> CHR ''+''
     \<and> digit_char d \<noteq> CHR ''x'' \<and> digit_char d \<noteq> CHR ''X''"
proof -
  have v: "(of_char (digit_char d) :: nat) = 48 + d" by (rule of_char_digit_char [OF d])
  have "\<not> is_space (digit_char d)" using d by (simp add: is_space_def v)
  moreover have "digit_char d \<noteq> CHR ''-''"
  proof
    assume "digit_char d = CHR ''-''"
    then have "(of_char (digit_char d) :: nat) = of_char CHR ''-''" by simp
    with v d show False by simp
  qed
  moreover have "digit_char d \<noteq> CHR ''+''"
  proof
    assume "digit_char d = CHR ''+''"
    then have "(of_char (digit_char d) :: nat) = of_char CHR ''+''" by simp
    with v d show False by simp
  qed
  moreover have "digit_char d \<noteq> CHR ''x''"
  proof
    assume "digit_char d = CHR ''x''"
    then have "(of_char (digit_char d) :: nat) = of_char CHR ''x''" by simp
    with v d show False by simp
  qed
  moreover have "digit_char d \<noteq> CHR ''X''"
  proof
    assume "digit_char d = CHR ''X''"
    then have "(of_char (digit_char d) :: nat) = of_char CHR ''X''" by simp
    with v d show False by simp
  qed
  ultimately show ?thesis by simp
qed

lemma strip_radix_digits: "strip_radix (digits n) = (10, digits n)"
proof (cases "digits n")
  case Nil
  then show ?thesis by (simp add: strip_radix_def)
next
  case (Cons a t)
  show ?thesis
  proof (cases t)
    case Nil
    with Cons show ?thesis by (simp add: strip_radix_def)
  next
    case (Cons b u)
    with \<open>digits n = a # t\<close> have "b \<in> set (digits n)" by simp
    from digits_all_decimal [OF this] obtain d where "d < 10" "b = digit_char d" by auto
    then have "b \<noteq> CHR ''x'' \<and> b \<noteq> CHR ''X''" using digit_char_plain [of d] by simp
    with Cons \<open>digits n = a # t\<close> show ?thesis by (simp add: strip_radix_def)
  qed
qed

lemma bitlen_le: "n < 2 ^ k \<Longrightarrow> bitlen n \<le> k"
proof (induction k arbitrary: n)
  case 0
  then show ?case by (subst bitlen.simps) simp
next
  case (Suc k)
  show ?case
  proof (cases "n = 0")
    case True
    then show ?thesis by (subst bitlen.simps) simp
  next
    case False
    from Suc.prems have "n div 2 < 2 ^ k" by simp
    from Suc.IH [OF this] False show ?thesis by (subst bitlen.simps) simp
  qed
qed

lemma round53_safe:
  assumes "n \<le> 9007199254740991"
  shows "round53 n = n"
proof -
  from assms have "n < 2 ^ 53" by simp
  from bitlen_le [OF this] show ?thesis by (simp add: round53_def Let_def)
qed

lemma parseInt_digits:
  assumes "n \<le> 9007199254740991"
  shows "parseInt (digits n) = Some (int n)"
proof -
  obtain d r where d: "d < 10" and dr: "digits n = digit_char d # r" using hd_digits by blast
  have "dropWhile is_space (digits n) = digits n"
    using dr digit_char_plain [OF d] by simp
  moreover have "strip_sign (digits n) = (False, digits n)"
    using dr digit_char_plain [OF d] by (simp add: strip_sign_def)
  ultimately show ?thesis
    by (simp add: parseInt_def strip_radix_digits parse_digits_digits round53_safe [OF assms])
qed

lemma toString_plain:
  assumes "\<bar>n\<bar> < 10 ^ 21"
  shows "toString n = (if n < 0 then CHR ''-'' # digits (nat (- n)) else digits (nat n))"
proof -
  from assms have "nat (- n) < 10 ^ 21" and "nat n < 10 ^ 21" by simp_all
  then show ?thesis by (simp add: toString_def Let_def)
qed

lemma safe_integer_plain: "safe_integer n \<Longrightarrow> \<bar>n\<bar> < 10 ^ 21"
  by (simp add: safe_integer_def)

lemma parseInt_toString:
  assumes "safe_integer n"
  shows "parseInt (toString n) = Some n"
proof (cases "n < 0")
  case False
  with assms have "nat n \<le> 9007199254740991" by (simp add: safe_integer_def)
  from parseInt_digits [OF this] False show ?thesis
    by (simp add: toString_plain [OF safe_integer_plain [OF assms]])
next
  case True
  with assms have small: "nat (- n) \<le> 9007199254740991" by (simp add: safe_integer_def)
  have "\<not> is_space CHR ''-''" by (simp add: is_space_def)
  then have "parseInt (CHR ''-'' # digits (nat (- n))) = Some (- int (nat (- n)))"
    by (simp add: parseInt_def strip_sign_def strip_radix_digits parse_digits_digits
          round53_safe [OF small])
  with True show ?thesis by (simp add: toString_plain [OF safe_integer_plain [OF assms]])
qed

section \<open>Responses and the dispatch on the method\<close>

lemma cors_set_setCorsHeaders: "cors_set (setCorsHeaders r)"
  by (simp add: cors_set_def setCorsHeaders_def setHeader_def)

lemma cors_set_res [simp]:
  "cors_set (res_status c r) = cors_set r"
  "cors_set (res_json v r) = cors_set r"
  "cors_set (res_end r) = cors_set r"
  by (simp_all add: cors_set_def res_status_def res_json_def res_end_def)

lemma sent_res [simp]:
  "sent (res_status c r) = sent r" "sent (res_json v r) = True" "sent (res_end r) = True"
  by (simp_all add: res_status_def res_json_def res_end_def)

lemma status_res [simp]:
  "status (res_status c r) = c" "status (res_json v r) = status r" "status (res_end r) = status r"
  by (simp_all add: res_status_def res_json_def res_end_def)

lemma body_res [simp]:
  "body (res_status c r) = body r" "body (res_json v r) = Some v" "body (res_end r) = None"
  by (simp_all add: res_status_def res_json_def res_end_def)

lemma logging_completes_on_Error [simp]: "instanceof_Error error \<Longrightarrow> \<not> logging_throws error"
  by (cases error) simp_all

lemma handler_GET:
  "req_method request = Some ''GET'' \<Longrightarrow>
   handler e request response w =
     (case get_favourites e request (setCorsHeaders response) w of
        (Inr answered, w') \<Rightarrow> (answered, w')
      | (Inl error, w') \<Rightarrow> (handler_catch error (setCorsHeaders response), w'))"
  by (simp add: handler_def handler_try_def Let_def)

lemma handler_POST:
  "req_method request = Some ''POST'' \<Longrightarrow>
   handler e request response w =
     (case post_favourite e request (setCorsHeaders response) w of
        (Inr answered, w') \<Rightarrow> (answered, w')
      | (Inl error, w') \<Rightarrow> (handler_catch error (setCorsHeaders response), w'))"
  by (simp add: handler_def handler_try_def Let_def)

lemma handler_DELETE:
  "req_method request = Some ''DELETE'' \<Longrightarrow>
   handler e request response w =
     (case delete_favourite e request (setCorsHeaders response) w of
        (Inr answered, w') \<Rightarrow> (answered, w')
      | (Inl error, w') \<Rightarrow> (handler_catch error (setCorsHeaders response), w'))"
  by (simp add: handler_def handler_try_def Let_def)

section \<open>The three outcomes of a GET with favourites\<close>

lemma degraded_record_id:
  assumes "safe_integer n"
  shows "get_prop (degraded_record (toString n)) ''id'' = JNum n"
  by (simp add: degraded_record_def parseInt_toString [OF assms]
        js_number_def)

lemma degraded_record_flag: "get_prop (degraded_record i) ''_apiUnavailable'' = JBool True"
  by (simp add: degraded_record_def)

lemma results_of_json [simp]:
  "results_of (res_json (JObj ((''results'', JArr xs) # rest)) r) = xs"
  by (simp add: results_of_def)

lemma get_favourites_quota:
  assumes "favouriteRecipes_findMany e (store w) = Inr rows" and "rows \<noteq> []"
    and "getFavouriteRecipesByIDs e (map (\<lambda>row. toString (recipeId row)) rows) = Inl err"
    and "isApiLimitError err"
  shows "get_favourites e request response w =
           (Inr (res_json
                   (JObj [(''results'', JArr (map degraded_record (map (\<lambda>row. toString (recipeId row)) rows))),
                          (''_message'', JStr ''Your favourites are saved, but recipe details are temporarily unavailable due to API daily limit. They will appear once the limit resets.'')])
                   (res_status 200 response)),
            w\<lparr>db_log := db_log w @ [FindMany],
              api_log := api_log w @ [map (\<lambda>row. toString (recipeId row)) rows]\<rparr>)"
  using assms by (simp add: get_favourites_def Let_def)

lemma get_favourites_rethrow:
  assumes "favouriteRecipes_findMany e (store w) = Inr rows" and "rows \<noteq> []"
    and "getFavouriteRecipesByIDs e (map (\<lambda>row. toString (recipeId row)) rows) = Inl err"
    and "\<not> isApiLimitError err"
  shows "get_favourites e request response w =
           (Inl err,
            w\<lparr>db_log := db_log w @ [FindMany],
              api_log := api_log w @ [map (\<lambda>row. toString (recipeId row)) rows]\<rparr>)"
  using assms by (simp add: get_favourites_def Let_def)

lemma get_favourites_success:
  assumes "favouriteRecipes_findMany e (store w) = Inr rows" and "rows \<noteq> []"
    and "getFavouriteRecipesByIDs e (map (\<lambda>row. toString (recipeId row)) rows) = Inr favourites"
  shows "get_favourites e request response w =
           (Inr (res_json favourites (res_status 200 response)),
            w\<lparr>db_log := db_log w @ [FindMany],
              api_log := api_log w @ [map (\<lambda>row. toString (recipeId row)) rows]\<rparr>)"
  using assms by (simp add: get_favourites_def Let_def)

lemma degraded_record_toString:
  assumes "safe_integer n"
  shows "degraded_record (toString n) =
           JObj [(''id'', JNum n),
                 (''title'', JStr (''Recipe #'' @ toString n @ '' (Details unavailable - API limit reached)'')),
                 (''image'', JNull),
                 (''_apiUnavailable'', JBool True)]"
  by (simp add: degraded_record_def parseInt_toString [OF assms]
        js_number_def)

lemma degraded_records_of_rows:
  "list_all (\<lambda>row. safe_integer (recipeId row)) rows \<Longrightarrow>
   map degraded_record (map (\<lambda>row. toString (recipeId row)) rows) =
   map (\<lambda>row. JObj [(''id'', JNum (recipeId row)),
                     (''title'', JStr (''Recipe #'' @ toString (recipeId row) @
                                       '' (Details unavailable - API limit reached)'')),
                     (''image'', JNull),
                     (''_apiUnavailable'', JBool True)]) rows"
  by (induction rows) (simp_all add: degraded_record_toString)

lemma result_ids_json [simp]:
  "result_ids (res_json (JObj ((''results'', JArr xs) # rest)) r) = map (\<lambda>d. get_prop d ''id'') xs"
  by (simp add: result_ids_def)

lemma result_flags_json [simp]:
  "result_flags (res_json (JObj ((''results'', JArr xs) # rest)) r) =
     map (\<lambda>d. get_prop d ''_apiUnavailable'') xs"
  by (simp add: result_flags_def)

lemma non_quota_error_reaches_catch:
  assumes m: "req_method request = Some ''GET''"
    and rows: "favouriteRecipes_findMany e (store w) = Inr rows" "rows \<noteq> []"
    and err: "getFavouriteRecipesByIDs e (map (\<lambda>row. toString (recipeId row)) rows) = Inl err"
    and other: "\<not> isApiLimitError err"
  shows "fst (handler e request response w) = handler_catch err (setCorsHeaders response)"
  by (simp add: handler_GET [OF m] get_favourites_rethrow [OF rows err other])

lemma non_quota_Error_answered_500:
  assumes m: "req_method request = Some ''GET''"
    and rows: "favouriteRecipes_findMany e (store w) = Inr rows" "rows \<noteq> []"
    and err: "getFavouriteRecipesByIDs e (map (\<lambda>row. toString (recipeId row)) rows) =
                Inl (ErrorObj c msg)"
    and other: "\<not> isApiLimitError (ErrorObj c msg)"
    and plain: "\<not> str_includes msg ''Unique constraint''"
  shows "status (fst (handler e request response w)) = 500 \<and>
         body (fst (handler e request response w)) =
           Some (JObj [(''error'', JStr ''Oops, something went wrong''), (''message'', JStr msg)])"
  unfolding non_quota_error_reaches_catch [OF m rows err other]
  using plain by (simp add: handler_catch_def)

section \<open>The endpoint, method by method\<close>

text \<open>
  Claim C9. A request whose method is none of GET, POST, DELETE and OPTIONS is answered 405
  with the body \<open>{error: "Method not allowed"}\<close>; the CORS headers are set on that
  response, and neither the store nor the upstream is touched.
\<close>

theorem method_not_allowed:
  assumes "req_method request \<notin> {Some ''GET'', Some ''POST'', Some ''DELETE'', Some ''OPTIONS''}"
  shows "status (fst (handler e request response w)) = 405 \<and>
         body (fst (handler e request response w)) = Some (JObj [(''error'', JStr ''Method not allowed'')]) \<and>
         cors_set (fst (handler e request response w)) \<and>
         snd (handler e request response w) = w"
  using assms by (simp add: handler_def handler_try_def cors_set_setCorsHeaders)

theorem method_not_allowed_witness:
  "Some ''PUT'' \<notin> {Some ''GET'', Some ''POST'', Some ''DELETE'', Some ''OPTIONS''} \<and>
   status (fst (handler (table_env (constant_resolver JNull))
     \<lparr>req_method = Some ''PUT'', req_body = JObj [(''recipeId'', JNum 101)]\<rparr>
     fresh_response (world_of [101]))) = 405 \<and>
   cors_set (fst (handler (table_env (constant_resolver JNull))
     \<lparr>req_method = Some ''PUT'', req_body = JObj [(''recipeId'', JNum 101)]\<rparr>
     fresh_response (world_of [101]))) \<and>
   snd (handler (table_env (constant_resolver JNull))
     \<lparr>req_method = Some ''PUT'', req_body = JObj [(''recipeId'', JNum 101)]\<rparr>
     fresh_response (world_of [101])) = world_of [101]"
  using method_not_allowed [where request = "\<lparr>req_method = Some ''PUT'', req_body = JObj [(''recipeId'', JNum 101)]\<rparr>"
      and e = "table_env (constant_resolver JNull)" and response = fresh_response and w = "world_of [101]"]
  by simp

text \<open>
  Claim C10. On POST and on DELETE the check of \<open>recipeId\<close> is falsiness: a body carrying
  \<open>recipeId\<close> equal to 0, the empty string, null or false is answered 400 with
  "Recipe ID is required", and no store operation is issued (the store and both logs are
  as before), so the recipe id 0 is neither favourited nor unfavourited.
\<close>

theorem falsy_recipeId_rejected:
  assumes m: "req_method request = Some ''POST'' \<or> req_method request = Some ''DELETE''"
    and b: "req_body request = JObj fs"
    and p: "map_of fs ''recipeId'' = Some v"
    and v: "v = JNum 0 \<or> v = JStr [] \<or> v = JNull \<or> v = JBool False"
  shows "status (fst (handler e request response w)) = 400 \<and>
         body (fst (handler e request response w)) = Some (JObj [(''error'', JStr ''Recipe ID is required'')]) \<and>
         snd (handler e request response w) = w"
proof -
  have f: "\<not> truthy v" using v by auto
  have d: "destructure_recipeId (req_body request) = Inr v"
    using b p by (simp add: destructure_recipeId_def)
  from m show ?thesis
  proof
    assume "req_method request = Some ''POST''"
    then show ?thesis using f d by (simp add: handler_POST post_favourite_def)
  next
    assume "req_method request = Some ''DELETE''"
    then show ?thesis using f d by (simp add: handler_DELETE delete_favourite_def)
  qed
qed

theorem falsy_recipeId_rejected_witness:
  "status (fst (handler (table_env (constant_resolver JNull))
     \<lparr>req_method = Some ''POST'', req_body = JObj [(''recipeId'', JNum 0)]\<rparr>
     fresh_response (world_of []))) = 400 \<and>
   snd (handler (table_env (constant_resolver JNull))
     \<lparr>req_method = Some ''POST'', req_body = JObj [(''recipeId'', JNum 0)]\<rparr>
     fresh_response (world_of [])) = world_of []"
  using falsy_recipeId_rejected [where request = "\<lparr>req_method = Some ''POST'', req_body = JObj [(''recipeId'', JNum 0)]\<rparr>"
      and fs = "[(''recipeId'', JNum 0)]" and v = "JNum 0"
      and e = "table_env (constant_resolver JNull)" and response = fresh_response and w = "world_of []"]
  by simp

text \<open>
  Claim C3. When the store holds no favourite, GET is answered 200 with the body
  \<open>{results: []}\<close> and \<open>getFavouriteRecipesByIDs\<close> is not called: the log of its calls
  is as before.
\<close>

theorem no_favourites_empty_results:
  assumes "req_method request = Some ''GET''"
    and "favouriteRecipes_findMany e (store w) = Inr []"
  shows "status (fst (handler e request response w)) = 200 \<and>
         body (fst (handler e request response w)) = Some (JObj [(''results'', JArr [])]) \<and>
         api_log (snd (handler e request response w)) = api_log w"
  using assms by (simp add: handler_GET get_favourites_def)

theorem no_favourites_empty_results_witness:
  "favouriteRecipes_findMany (table_env (throwing_resolver connection_error)) (store (world_of [])) = Inr [] \<and>
   status (fst (handler (table_env (throwing_resolver connection_error))
     \<lparr>req_method = Some ''GET'', req_body = JUndefined\<rparr> fresh_response (world_of []))) = 200 \<and>
   body (fst (handler (table_env (throwing_resolver connection_error))
     \<lparr>req_method = Some ''GET'', req_body = JUndefined\<rparr> fresh_response (world_of []))) =
       Some (JObj [(''results'', JArr [])]) \<and>
   api_log (snd (handler (table_env (throwing_resolver connection_error))
     \<lparr>req_method = Some ''GET'', req_body = JUndefined\<rparr> fresh_response (world_of []))) = []"
  using no_favourites_empty_results [where request = "\<lparr>req_method = Some ''GET'', req_body = JUndefined\<rparr>"
      and e = "table_env (throwing_resolver connection_error)" and response = fresh_response and w = "world_of []"]
  by (simp add: table_env_def table_findMany_def world_of_def)

text \<open>
  Claim C7. GET is read-only on the favourites store: whatever the store query and the
  upstream call do (succeed, report an exhausted quota, fail), the store after the request is
  the store before it, and the only operation issued on it is the query \<open>findMany\<close>.
\<close>

theorem get_is_read_only:
  assumes "req_method request = Some ''GET''"
  shows "store (snd (handler e request response w)) = store w \<and>
         db_log (snd (handler e request response w)) = db_log w @ [FindMany]"
  using assms
  by (simp add: handler_GET get_favourites_def Let_def split: sum.splits)

theorem get_is_read_only_witness:
  "store (snd (handler (table_env (throwing_resolver connection_error))
     \<lparr>req_method = Some ''GET'', req_body = JUndefined\<rparr> fresh_response (world_of [101, 102]))) = [101, 102]"
  using get_is_read_only [where request = "\<lparr>req_method = Some ''GET'', req_body = JUndefined\<rparr>"
      and e = "table_env (throwing_resolver connection_error)" and response = fresh_response and w = "world_of [101, 102]"]
  by (simp add: world_of_def)

text \<open>
  Claim C1. When the store holds favourites (their ids safe integers, which every 32-bit
  integer id is) and the upstream call reports an exhausted quota (its error has code 402,
  or a message containing "points limit" or "daily limit"), GET is answered 200; the results
  hold exactly one degraded record per stored id, in the order of the stored ids, each with
  the id of its row and the flag \<open>_apiUnavailable\<close> set to true, and the body carries the
  notice that the favourites are saved but their details are unavailable until the limit
  resets. The last conjunct gives the whole body.
\<close>

theorem quota_exhausted_degrades:
  assumes m: "req_method request = Some ''GET''"
    and rows: "favouriteRecipes_findMany e (store w) = Inr rows" "rows \<noteq> []"
    and safe: "list_all (\<lambda>row. safe_integer (recipeId row)) rows"
    and err: "getFavouriteRecipesByIDs e (map (\<lambda>row. toString (recipeId row)) rows) = Inl err"
    and quota: "isApiLimitError err"
  shows "status (fst (handler e request response w)) = 200 \<and>
         length (results_of (fst (handler e request response w))) = length rows \<and>
         result_ids (fst (handler e request response w)) = map (\<lambda>row. JNum (recipeId row)) rows \<and>
         result_flags (fst (handler e request response w)) = replicate (length rows) (JBool True) \<and>
         body (fst (handler e request response w)) =
           Some (JObj
             [(''results'',
               JArr (map (\<lambda>row.
                  JObj [(''id'', JNum (recipeId row)),
                        (''title'', JStr (''Recipe #'' @ toString (recipeId row) @
                                          '' (Details unavailable - API limit reached)'')),
                        (''image'', JNull),
                        (''_apiUnavailable'', JBool True)]) rows)),
              (''_message'',
               JStr ''Your favourites are saved, but recipe details are temporarily unavailable due to API daily limit. They will appear once the limit resets.'')])"
proof -
  let ?ids = "map (\<lambda>row. toString (recipeId row)) rows"
  have h: "fst (handler e request response w) =
             res_json (JObj [(''results'', JArr (map degraded_record ?ids)),
                             (''_message'', JStr ''Your favourites are saved, but recipe details are temporarily unavailable due to API daily limit. They will appear once the limit resets.'')])
               (res_status 200 (setCorsHeaders response))"
    by (simp add: handler_GET [OF m] get_favourites_quota [OF rows err quota])
  note recs = degraded_records_of_rows [OF safe]
  have flags: "map (\<lambda>row. JBool True) rows = replicate (length rows) (JBool True)"
    by (simp add: map_replicate_const)
  show ?thesis
    unfolding h recs by (simp add: o_def flags)
qed

theorem quota_exhausted_degrades_witness:
  "isApiLimitError (ErrorObj (JNum 402) ''Payment Required'') \<and>
   status (fst (handler (table_env (throwing_resolver (ErrorObj (JNum 402) ''Payment Required'')))
     \<lparr>req_method = Some ''GET'', req_body = JUndefined\<rparr> fresh_response (world_of [101, 102]))) = 200 \<and>
   result_ids (fst (handler (table_env (throwing_resolver (ErrorObj (JNum 402) ''Payment Required'')))
       \<lparr>req_method = Some ''GET'', req_body = JUndefined\<rparr> fresh_response (world_of [101, 102]))) =
     [JNum 101, JNum 102] \<and>
   result_flags (fst (handler (table_env (throwing_resolver (ErrorObj (JNum 402) ''Payment Required'')))
       \<lparr>req_method = Some ''GET'', req_body = JUndefined\<rparr> fresh_response (world_of [101, 102]))) =
     [JBool True, JBool True]"
proof -
  let ?err = "ErrorObj (JNum 402) ''Payment Required''"
  let ?e = "table_env (throwing_resolver ?err)"
  let ?rows = "[\<lparr>recipeId = 101\<rparr>, \<lparr>recipeId = 102\<rparr>]"
  have m: "req_method \<lparr>req_method = Some ''GET'', req_body = JUndefined\<rparr> = Some ''GET''" by simp
  have r: "favouriteRecipes_findMany ?e (store (world_of [101, 102])) = Inr ?rows"
    by (simp add: table_env_def table_findMany_def world_of_def)
  have n: "?rows \<noteq> []" by simp
  have s: "list_all (\<lambda>row. safe_integer (recipeId row)) ?rows" by (simp add: safe_integer_def)
  have t: "getFavouriteRecipesByIDs ?e (map (\<lambda>row. toString (recipeId row)) ?rows) = Inl ?err"
    by (simp add: table_env_def throwing_resolver_def)
  have q: "isApiLimitError ?err" by (simp add: isApiLimitError_def)
  note degraded = quota_exhausted_degrades [OF m r n s t q, of fresh_response]
  from degraded [THEN conjunct1]
       degraded [THEN conjunct2, THEN conjunct2, THEN conjunct1]
       degraded [THEN conjunct2, THEN conjunct2, THEN conjunct2, THEN conjunct1] q
  show ?thesis by (simp add: numeral_2_eq_2)
qed

text \<open>
  Claim C4. An upstream error that is no quota error is rethrown to the \<open>catch\<close> block,
  and a 5xx answer is what the claim asks for every such error. The branch of that block
  which answers 409 is the one written for the duplicate favourite of a POST, but it tests
  only the message of the error: a GET whose upstream \<open>Error\<close> has a message containing
  "Unique constraint" is answered 409 with "Recipe is already in favorites".
\<close>

theorem upstream_error_answered_409:
  "\<not> isApiLimitError (ErrorObj JUndefined ''Unique constraint failed'') \<and>
   status (fst (handler (table_env (throwing_resolver (ErrorObj JUndefined ''Unique constraint failed'')))
     \<lparr>req_method = Some ''GET'', req_body = JUndefined\<rparr> fresh_response (world_of [101]))) = 409 \<and>
   body (fst (handler (table_env (throwing_resolver (ErrorObj JUndefined ''Unique constraint failed'')))
     \<lparr>req_method = Some ''GET'', req_body = JUndefined\<rparr> fresh_response (world_of [101]))) =
     Some (JObj [(''error'', JStr ''Recipe is already in favorites'')])"
proof -
  let ?err = "ErrorObj JUndefined ''Unique constraint failed''"
  let ?e = "table_env (throwing_resolver ?err)"
  let ?rows = "[\<lparr>recipeId = 101\<rparr>]"
  have r: "favouriteRecipes_findMany ?e (store (world_of [101])) = Inr ?rows"
    by (simp add: table_env_def table_findMany_def world_of_def)
  have n: "?rows \<noteq> []" by simp
  have t: "getFavouriteRecipesByIDs ?e (map (\<lambda>row. toString (recipeId row)) ?rows) = Inl ?err"
    by (simp add: table_env_def throwing_resolver_def)
  have q: "\<not> isApiLimitError ?err"
    by (simp add: isApiLimitError_def startsWith_def)
  have u: "message_includes ?err ''Unique constraint''"
    by (simp add: startsWith_def)
  have "status (handler_catch ?err (setCorsHeaders fresh_response)) = 409 \<and>
        body (handler_catch ?err (setCorsHeaders fresh_response)) =
          Some (JObj [(''error'', JStr ''Recipe is already in favorites'')])"
    using u by (simp add: handler_catch_def)
  then show ?thesis
    using q by (simp add: handler_GET get_favourites_rethrow [OF r n t q])
qed

text \<open>
  Claim C5, as amended. For a POST whose body is an object: when \<open>recipeId\<close> is truthy and
  the store creates the record, the answer is 201 with the created record, and the store is
  the one \<open>create\<close> left; when \<open>recipeId\<close> is missing or otherwise falsy, the answer is
  400 with "Recipe ID is required" and nothing is touched; when \<open>create\<close> throws an
  \<open>Error\<close> whose message contains "Unique constraint", the answer is 409 with the message
  "Recipe is already in favorites".
\<close>

theorem post_favourite_answers:
  assumes m: "req_method request = Some ''POST''"
    and b: "req_body request = JObj fs"
  shows "(truthy (get_prop (JObj fs) ''recipeId'') \<and>
          favouriteRecipes_create e (store w) (get_prop (JObj fs) ''recipeId'') = (Inr created, st') \<longrightarrow>
            status (fst (handler e request response w)) = 201 \<and>
            body (fst (handler e request response w)) = Some created \<and>
            store (snd (handler e request response w)) = st') \<and>
         (map_of fs ''recipeId'' = None \<or> \<not> truthy (get_prop (JObj fs) ''recipeId'') \<longrightarrow>
            status (fst (handler e request response w)) = 400 \<and>
            body (fst (handler e request response w)) =
              Some (JObj [(''error'', JStr ''Recipe ID is required'')]) \<and>
            snd (handler e request response w) = w) \<and>
         (truthy (get_prop (JObj fs) ''recipeId'') \<and>
          favouriteRecipes_create e (store w) (get_prop (JObj fs) ''recipeId'') = (Inl err, st') \<and>
          instanceof_Error err \<and> message_includes err ''Unique constraint'' \<longrightarrow>
            status (fst (handler e request response w)) = 409 \<and>
            body (fst (handler e request response w)) =
              Some (JObj [(''error'', JStr ''Recipe is already in favorites'')]))"
proof -
  have d: "destructure_recipeId (req_body request) = Inr (get_prop (JObj fs) ''recipeId'')"
    using b by (simp add: destructure_recipeId_def)
  have missing: "map_of fs ''recipeId'' = None \<Longrightarrow> \<not> truthy (get_prop (JObj fs) ''recipeId'')"
    by simp
  show ?thesis
    using missing
    by (auto simp: handler_POST [OF m] post_favourite_def d Let_def handler_catch_def
             simp del: get_prop.simps)
qed

theorem post_favourite_answers_witness:
  "status (fst (handler (table_env (constant_resolver JNull))
     \<lparr>req_method = Some ''POST'', req_body = JObj [(''recipeId'', JNum 101)]\<rparr>
     fresh_response (world_of [102]))) = 201 \<and>
   store (snd (handler (table_env (constant_resolver JNull))
     \<lparr>req_method = Some ''POST'', req_body = JObj [(''recipeId'', JNum 101)]\<rparr>
     fresh_response (world_of [102]))) = [102, 101] \<and>
   status (fst (handler (table_env (constant_resolver JNull))
     \<lparr>req_method = Some ''POST'', req_body = JObj [(''recipeId'', JNum 101)]\<rparr>
     fresh_response (world_of [101]))) = 409"
proof -
  let ?req = "\<lparr>req_method = Some ''POST'', req_body = JObj [(''recipeId'', JNum 101)]\<rparr>"
  let ?e = "table_env (constant_resolver JNull)"
  let ?dup = "ErrorObj (JStr ''P2002'') ''Unique constraint failed on the fields: (recipeId)''"
  have m: "req_method ?req = Some ''POST''" by simp
  have b: "req_body ?req = JObj [(''recipeId'', JNum 101)]" by simp
  have t: "truthy (get_prop (JObj [(''recipeId'', JNum 101)]) ''recipeId'')" by simp
  have c1: "favouriteRecipes_create ?e (store (world_of [102])) (get_prop (JObj [(''recipeId'', JNum 101)]) ''recipeId'') =
              (Inr (JObj [(''recipeId'', JNum 101)]), [102, 101])"
    by (simp add: table_env_def table_create_def world_of_def)
  have c2: "favouriteRecipes_create ?e (store (world_of [101])) (get_prop (JObj [(''recipeId'', JNum 101)]) ''recipeId'') =
              (Inl ?dup, [101])"
    by (simp add: table_env_def table_create_def world_of_def)
  have u: "instanceof_Error ?dup \<and> message_includes ?dup ''Unique constraint''"
    by (simp add: startsWith_def)
  note created = post_favourite_answers [OF m b, THEN conjunct1, THEN mp, OF conjI [OF t c1], of fresh_response]
  note duplicate = post_favourite_answers [OF m b, THEN conjunct2, THEN conjunct2, THEN mp,
      OF conjI [OF t conjI [OF c2 u]], of fresh_response]
  from created duplicate show ?thesis by simp
qed

text \<open>
  The claim as first stated (201 whenever \<open>recipeId\<close> is present and not yet favourited)
  fails: the body \<open>{recipeId: 0}\<close> on an empty store is answered 400 and nothing is
  stored; and with a present, truthy \<open>recipeId\<close> on a database that cannot be reached the
  answer is 500.
\<close>

theorem post_zero_answered_400:
  "status (fst (handler (table_env (constant_resolver JNull))
     \<lparr>req_method = Some ''POST'', req_body = JObj [(''recipeId'', JNum 0)]\<rparr>
     fresh_response (world_of []))) = 400 \<and>
   store (snd (handler (table_env (constant_resolver JNull))
     \<lparr>req_method = Some ''POST'', req_body = JObj [(''recipeId'', JNum 0)]\<rparr>
     fresh_response (world_of []))) = [] \<and>
   status (fst (handler (unreachable_env (constant_resolver JNull))
     \<lparr>req_method = Some ''POST'', req_body = JObj [(''recipeId'', JNum 101)]\<rparr>
     fresh_response (world_of []))) = 500"
  by (simp add: handler_POST post_favourite_def destructure_recipeId_def world_of_def
        unreachable_env_def connection_error_def handler_catch_def startsWith_def)

text \<open>
  Claim C6, as amended. For a DELETE whose body is an object: when \<open>recipeId\<close> is truthy
  and the store deletes the record, the answer is 204 with an empty body, and the store is the
  one \<open>delete\<close> left; when \<open>recipeId\<close> is missing or otherwise falsy, the answer is 400
  with "Recipe ID is required" and nothing is touched.
\<close>

theorem delete_favourite_answers:
  assumes m: "req_method request = Some ''DELETE''"
    and b: "req_body request = JObj fs"
  shows "(truthy (get_prop (JObj fs) ''recipeId'') \<and>
          favouriteRecipes_delete e (store w) (get_prop (JObj fs) ''recipeId'') = (Inr (), st') \<longrightarrow>
            status (fst (handler e request response w)) = 204 \<and>
            body (fst (handler e request response w)) = None \<and>
            store (snd (handler e request response w)) = st') \<and>
         (map_of fs ''recipeId'' = None \<or> \<not> truthy (get_prop (JObj fs) ''recipeId'') \<longrightarrow>
            status (fst (handler e request response w)) = 400 \<and>
            body (fst (handler e request response w)) =
              Some (JObj [(''error'', JStr ''Recipe ID is required'')]) \<and>
            snd (handler e request response w) = w)"
proof -
  have d: "destructure_recipeId (req_body request) = Inr (get_prop (JObj fs) ''recipeId'')"
    using b by (simp add: destructure_recipeId_def)
  have missing: "map_of fs ''recipeId'' = None \<Longrightarrow> \<not> truthy (get_prop (JObj fs) ''recipeId'')"
    by simp
  show ?thesis
    using missing
    by (auto simp: handler_DELETE [OF m] delete_favourite_def d Let_def
             simp del: get_prop.simps)
qed

theorem delete_favourite_answers_witness:
  "status (fst (handler (table_env (constant_resolver JNull))
     \<lparr>req_method = Some ''DELETE'', req_body = JObj [(''recipeId'', JNum 101)]\<rparr>
     fresh_response (world_of [101, 102]))) = 204 \<and>
   body (fst (handler (table_env (constant_resolver JNull))
     \<lparr>req_method = Some ''DELETE'', req_body = JObj [(''recipeId'', JNum 101)]\<rparr>
     fresh_response (world_of [101, 102]))) = None \<and>
   store (snd (handler (table_env (constant_resolver JNull))
     \<lparr>req_method = Some ''DELETE'', req_body = JObj [(''recipeId'', JNum 101)]\<rparr>
     fresh_response (world_of [101, 102]))) = [102]"
proof -
  let ?req = "\<lparr>req_method = Some ''DELETE'', req_body = JObj [(''recipeId'', JNum 101)]\<rparr>"
  let ?e = "table_env (constant_resolver JNull)"
  have m: "req_method ?req = Some ''DELETE''" by simp
  have b: "req_body ?req = JObj [(''recipeId'', JNum 101)]" by simp
  have t: "truthy (get_prop (JObj [(''recipeId'', JNum 101)]) ''recipeId'')" by simp
  have c: "favouriteRecipes_delete ?e (store (world_of [101, 102])) (get_prop (JObj [(''recipeId'', JNum 101)]) ''recipeId'') =
              (Inr (), [102])"
    by (simp add: table_env_def table_delete_def world_of_def)
  from delete_favourite_answers [OF m b, THEN conjunct1, THEN mp, OF conjI [OF t c], of fresh_response]
  show ?thesis by simp
qed

text \<open>
  The claim as first stated (204 for every DELETE carrying a \<open>recipeId\<close>) fails: the body
  \<open>{recipeId: 0}\<close> is answered 400 and the favourite 0 stays in the store; and with a truthy
  \<open>recipeId\<close> on a database that cannot be reached the answer is 500.
\<close>

theorem delete_zero_answered_400:
  "status (fst (handler (table_env (constant_resolver JNull))
     \<lparr>req_method = Some ''DELETE'', req_body = JObj [(''recipeId'', JNum 0)]\<rparr>
     fresh_response (world_of [0]))) = 400 \<and>
   store (snd (handler (table_env (constant_resolver JNull))
     \<lparr>req_method = Some ''DELETE'', req_body = JObj [(''recipeId'', JNum 0)]\<rparr>
     fresh_response (world_of [0]))) = [0] \<and>
   status (fst (handler (unreachable_env (constant_resolver JNull))
     \<lparr>req_method = Some ''DELETE'', req_body = JObj [(''recipeId'', JNum 101)]\<rparr>
     fresh_response (world_of [101]))) = 500"
  by (simp add: handler_DELETE delete_favourite_def destructure_recipeId_def world_of_def
        unreachable_env_def connection_error_def handler_catch_def startsWith_def)

section \<open>The key rotator never returns an exhausted credential\<close>

lemma exhausted_in_markExhausted: "exhausted_in c (markExhausted c cs)"
  by (induction cs) (simp_all add: exhausted_in_def markExhausted_def)

lemma exhausted_in_preserved: "exhausted_in c cs \<Longrightarrow> exhausted_in c (markExhausted c' cs)"
  by (auto simp: exhausted_in_def markExhausted_def list_all_iff)

lemma exhausted_in_not_selected:
  assumes "exhausted_in c cs"
  shows "\<not> returns_credential c (selectCredential cs)"
proof (cases "find (\<lambda>k. quota_state k \<noteq> Exhausted) cs")
  case None
  then show ?thesis by (simp add: selectCredential_def returns_credential_def)
next
  case (Some k)
  then have "k \<in> set cs" and "quota_state k \<noteq> Exhausted"
    by (auto simp: find_Some_iff)
  with assms have "cred_id k \<noteq> c"
    by (auto simp: exhausted_in_def list_all_iff)
  with Some show ?thesis by (simp add: selectCredential_def returns_credential_def)
qed

lemma exhausted_in_run:
  "exhausted_in c cs \<Longrightarrow> r \<in> set (fst (run_rotator ops cs)) \<Longrightarrow> \<not> returns_credential c r"
proof (induction ops cs arbitrary: r rule: run_rotator.induct)
  case (1 cs)
  then show ?case by simp
next
  case (2 ops cs)
  then show ?case
    by (auto simp: exhausted_in_not_selected split: prod.splits)
next
  case (3 c' ops cs)
  then show ?case by (simp add: exhausted_in_preserved)
qed

lemma all_exhausted_preserved: "all_exhausted cs \<Longrightarrow> all_exhausted (markExhausted c cs)"
  by (auto simp: all_exhausted_def markExhausted_def list_all_iff)

lemma all_exhausted_select: "all_exhausted cs \<Longrightarrow> selectCredential cs = Inl NoCredentialsAvailable"
proof -
  assume "all_exhausted cs"
  then have "find (\<lambda>k. quota_state k \<noteq> Exhausted) cs = None"
    by (simp add: all_exhausted_def list_all_iff find_None_iff)
  then show ?thesis by (simp add: selectCredential_def)
qed

lemma all_exhausted_run:
  "all_exhausted cs \<Longrightarrow> r \<in> set (fst (run_rotator ops cs)) \<Longrightarrow> r = Inl NoCredentialsAvailable"
proof (induction ops cs arbitrary: r rule: run_rotator.induct)
  case (1 cs)
  then show ?case by simp
next
  case (2 ops cs)
  then show ?case
    by (auto simp: all_exhausted_select split: prod.splits)
next
  case (3 c' ops cs)
  then show ?case by (simp add: all_exhausted_preserved)
qed

lemma fold_markExhausted_all:
  "\<forall>k\<in>set cs. cred_id k \<in> set marked \<or> quota_state k = Exhausted \<Longrightarrow>
   all_exhausted (fold markExhausted marked cs)"
proof (induction marked arbitrary: cs)
  case Nil
  then show ?case by (simp add: all_exhausted_def list_all_iff)
next
  case (Cons c marked)
  have "\<forall>k\<in>set (markExhausted c cs). cred_id k \<in> set marked \<or> quota_state k = Exhausted"
    using Cons.prems by (auto simp: markExhausted_def)
  from Cons.IH [OF this] show ?case by simp
qed

lemma run_rotator_marks:
  "run_rotator (map Mark marked @ ops) cs = run_rotator ops (fold markExhausted marked cs)"
  by (induction marked arbitrary: cs) simp_all

text \<open>
  Claim C8. In every execution of the rotator, from any state: once \<open>markExhausted c\<close> has
  been called, no later \<open>selectCredential\<close> returns \<open>c\<close>, whatever operations follow;
  and once every credential has been marked exhausted, \<open>selectCredential\<close> fails with
  NoCredentialsAvailable, then and after any further operations.
\<close>

theorem exhausted_credential_never_selected:
  "(\<forall>r\<in>set (fst (run_rotator (Mark c # ops) cs)). \<not> returns_credential c r) \<and>
   (set (map cred_id cs) \<subseteq> set marked \<longrightarrow>
      (\<forall>r\<in>set (fst (run_rotator (map Mark marked @ Select # ops) cs)).
         r = Inl NoCredentialsAvailable) \<and>
      selectCredential (fold markExhausted marked cs) = Inl NoCredentialsAvailable)"
proof (intro conjI impI ballI)
  fix r
  assume "r \<in> set (fst (run_rotator (Mark c # ops) cs))"
  then show "\<not> returns_credential c r"
    using exhausted_in_run [OF exhausted_in_markExhausted [of c cs]] by simp
next
  fix r
  assume sub: "set (map cred_id cs) \<subseteq> set marked"
    and r: "r \<in> set (fst (run_rotator (map Mark marked @ Select # ops) cs))"
  from sub have "all_exhausted (fold markExhausted marked cs)"
    by (intro fold_markExhausted_all) auto
  from all_exhausted_run [OF this] r show "r = Inl NoCredentialsAvailable"
    by (simp only: run_rotator_marks)
next
  assume sub: "set (map cred_id cs) \<subseteq> set marked"
  then have "all_exhausted (fold markExhausted marked cs)"
    by (intro fold_markExhausted_all) auto
  then show "selectCredential (fold markExhausted marked cs) = Inl NoCredentialsAvailable"
    by (rule all_exhausted_select)
qed

theorem exhausted_credential_never_selected_witness:
  "fst (run_rotator [Mark ''k1'', Select, Mark ''k2'', Select]
     [\<lparr>cred_id = ''k1'', quota_state = Unknown\<rparr>, \<lparr>cred_id = ''k2'', quota_state = Ok\<rparr>]) =
     [Inr \<lparr>cred_id = ''k2'', quota_state = Ok\<rparr>, Inl NoCredentialsAvailable] \<and>
   \<not> returns_credential ''k1'' (Inr \<lparr>cred_id = ''k2'', quota_state = Ok\<rparr>) \<and>
   selectCredential (fold markExhausted [''k1'', ''k2'']
     [\<lparr>cred_id = ''k1'', quota_state = Unknown\<rparr>, \<lparr>cred_id = ''k2'', quota_state = Ok\<rparr>]) =
     Inl NoCredentialsAvailable"
proof -
  let ?cs = "[\<lparr>cred_id = ''k1'', quota_state = Unknown\<rparr>, \<lparr>cred_id = ''k2'', quota_state = Ok\<rparr>]"
  have run: "fst (run_rotator [Mark ''k1'', Select, Mark ''k2'', Select] ?cs) =
               [Inr \<lparr>cred_id = ''k2'', quota_state = Ok\<rparr>, Inl NoCredentialsAvailable]"
    by (simp add: markExhausted_def selectCredential_def)
  have sub: "set (map cred_id ?cs) \<subseteq> set [''k1'', ''k2'']" by simp
  note t = exhausted_credential_never_selected [where c = "''k1''" and ops = "[Select, Mark ''k2'', Select]"
      and cs = ?cs and marked = "[''k1'', ''k2'']"]
  have "Inr \<lparr>cred_id = ''k2'', quota_state = Ok\<rparr> \<in>
          set (fst (run_rotator (Mark ''k1'' # [Select, Mark ''k2'', Select]) ?cs))"
    unfolding run by simp
  from t [THEN conjunct1, rule_format, OF this]
  have "\<not> returns_credential ''k1'' (Inr \<lparr>cred_id = ''k2'', quota_state = Ok\<rparr>)" .
  moreover from t [THEN conjunct2, THEN mp, OF sub, THEN conjunct2]
  have "selectCredential (fold markExhausted [''k1'', ''k2''] ?cs) = Inl NoCredentialsAvailable" .
  ultimately show ?thesis using run by simp
qed

section \<open>What the success path forwards\<close>

text \<open>
  Claim C2, as amended. On a non-empty set of favourites: when the upstream call reports an
  exhausted quota, GET is answered 200 with exactly as many results as there are stored ids,
  the i-th result carrying the i-th stored id (for ids that are safe integers); when
  \<open>getFavouriteRecipesByIDs\<close> returns, GET is answered 200 with the value it returned,
  unchanged, so the number and the order of the results are those of that value.
\<close>

theorem favourites_forwarded_or_degraded:
  assumes m: "req_method request = Some ''GET''"
    and rows: "favouriteRecipes_findMany e (store w) = Inr rows" "rows \<noteq> []"
  shows "(getFavouriteRecipesByIDs e (map (\<lambda>row. toString (recipeId row)) rows) = Inr favourites \<longrightarrow>
            status (fst (handler e request response w)) = 200 \<and>
            body (fst (handler e request response w)) = Some favourites) \<and>
         (getFavouriteRecipesByIDs e (map (\<lambda>row. toString (recipeId row)) rows) = Inl err \<and>
          isApiLimitError err \<and> list_all (\<lambda>row. safe_integer (recipeId row)) rows \<longrightarrow>
            status (fst (handler e request response w)) = 200 \<and>
            length (results_of (fst (handler e request response w))) = length rows \<and>
            result_ids (fst (handler e request response w)) = map (\<lambda>row. JNum (recipeId row)) rows)"
proof (rule conjI; rule impI)
  assume ok: "getFavouriteRecipesByIDs e (map (\<lambda>row. toString (recipeId row)) rows) = Inr favourites"
  have h: "fst (handler e request response w) =
             res_json favourites (res_status 200 (setCorsHeaders response))"
    by (simp add: handler_GET [OF m] get_favourites_success [OF rows ok])
  show "status (fst (handler e request response w)) = 200 \<and>
        body (fst (handler e request response w)) = Some favourites"
    unfolding h by simp
next
  assume a: "getFavouriteRecipesByIDs e (map (\<lambda>row. toString (recipeId row)) rows) = Inl err \<and>
             isApiLimitError err \<and> list_all (\<lambda>row. safe_integer (recipeId row)) rows"
  then have err: "getFavouriteRecipesByIDs e (map (\<lambda>row. toString (recipeId row)) rows) = Inl err"
    and quota: "isApiLimitError err"
    and safe: "list_all (\<lambda>row. safe_integer (recipeId row)) rows"
    by simp_all
  let ?ids = "map (\<lambda>row. toString (recipeId row)) rows"
  have h: "fst (handler e request response w) =
             res_json (JObj [(''results'', JArr (map degraded_record ?ids)),
                             (''_message'', JStr ''Your favourites are saved, but recipe details are temporarily unavailable due to API daily limit. They will appear once the limit resets.'')])
               (res_status 200 (setCorsHeaders response))"
    by (simp add: handler_GET [OF m] get_favourites_quota [OF rows err quota])
  show "status (fst (handler e request response w)) = 200 \<and>
        length (results_of (fst (handler e request response w))) = length rows \<and>
        result_ids (fst (handler e request response w)) = map (\<lambda>row. JNum (recipeId row)) rows"
    unfolding h degraded_records_of_rows [OF safe] by (simp add: o_def)
qed

theorem favourites_forwarded_or_degraded_witness:
  "body (fst (handler
     (table_env (constant_resolver
        (JObj [(''results'', JArr [JObj [(''id'', JNum 101)], JObj [(''id'', JNum 102)]])])))
     \<lparr>req_method = Some ''GET'', req_body = JUndefined\<rparr> fresh_response (world_of [101, 102]))) =
     Some (JObj [(''results'', JArr [JObj [(''id'', JNum 101)], JObj [(''id'', JNum 102)]])]) \<and>
   result_ids (fst (handler (table_env (throwing_resolver (ErrorObj (JNum 402) ''Payment Required'')))
     \<lparr>req_method = Some ''GET'', req_body = JUndefined\<rparr> fresh_response (world_of [101, 102]))) =
     [JNum 101, JNum 102]"
proof -
  let ?answer = "JObj [(''results'', JArr [JObj [(''id'', JNum 101)], JObj [(''id'', JNum 102)]])]"
  let ?err = "ErrorObj (JNum 402) ''Payment Required''"
  let ?ok = "table_env (constant_resolver ?answer)"
  let ?out = "table_env (throwing_resolver ?err)"
  let ?rows = "[\<lparr>recipeId = 101\<rparr>, \<lparr>recipeId = 102\<rparr>]"
  have m: "req_method \<lparr>req_method = Some ''GET'', req_body = JUndefined\<rparr> = Some ''GET''" by simp
  have r1: "favouriteRecipes_findMany ?ok (store (world_of [101, 102])) = Inr ?rows"
    by (simp add: table_env_def table_findMany_def world_of_def)
  have r2: "favouriteRecipes_findMany ?out (store (world_of [101, 102])) = Inr ?rows"
    by (simp add: table_env_def table_findMany_def world_of_def)
  have n: "?rows \<noteq> []" by simp
  have t1: "getFavouriteRecipesByIDs ?ok (map (\<lambda>row. toString (recipeId row)) ?rows) = Inr ?answer"
    by (simp add: table_env_def constant_resolver_def)
  have t2: "getFavouriteRecipesByIDs ?out (map (\<lambda>row. toString (recipeId row)) ?rows) = Inl ?err \<and>
            isApiLimitError ?err \<and> list_all (\<lambda>row. safe_integer (recipeId row)) ?rows"
    by (simp add: table_env_def throwing_resolver_def isApiLimitError_def safe_integer_def)
  note forwarded = favourites_forwarded_or_degraded [OF m r1 n, THEN conjunct1, THEN mp, OF t1,
      of fresh_response]
  note degraded = favourites_forwarded_or_degraded [OF m r2 n, THEN conjunct2, THEN mp, OF t2,
      of fresh_response]
  from forwarded [THEN conjunct2] degraded [THEN conjunct2, THEN conjunct2]
  show ?thesis by simp
qed

text \<open>
  The claim as first stated (as many results as ids, in the order of the ids, on the success
  path too) fails on the handler: it does no re-keying, so an answer of the resolver that
  lists the records in another order, or lists none, is what the response holds.
\<close>

theorem handler_forwards_upstream_order:
  "result_ids (fst (handler
     (table_env (constant_resolver
        (JObj [(''results'', JArr [JObj [(''id'', JNum 102)], JObj [(''id'', JNum 101)]])])))
     \<lparr>req_method = Some ''GET'', req_body = JUndefined\<rparr> fresh_response (world_of [101, 102]))) =
     [JNum 102, JNum 101] \<and>
   results_of (fst (handler
     (table_env (constant_resolver (JObj [(''results'', JArr [])])))
     \<lparr>req_method = Some ''GET'', req_body = JUndefined\<rparr> fresh_response (world_of [101, 102]))) = []"
proof -
  let ?swapped = "JObj [(''results'', JArr [JObj [(''id'', JNum 102)], JObj [(''id'', JNum 101)]])]"
  let ?none = "JObj [(''results'', JArr [])]"
  let ?rows = "[\<lparr>recipeId = 101\<rparr>, \<lparr>recipeId = 102\<rparr>]"
  have n: "?rows \<noteq> []" by simp
  have r1: "favouriteRecipes_findMany (table_env (constant_resolver ?swapped)) (store (world_of [101, 102])) = Inr ?rows"
    by (simp add: table_env_def table_findMany_def world_of_def)
  have r2: "favouriteRecipes_findMany (table_env (constant_resolver ?none)) (store (world_of [101, 102])) = Inr ?rows"
    by (simp add: table_env_def table_findMany_def world_of_def)
  have t1: "getFavouriteRecipesByIDs (table_env (constant_resolver ?swapped))
              (map (\<lambda>row. toString (recipeId row)) ?rows) = Inr ?swapped"
    by (simp add: table_env_def constant_resolver_def)
  have t2: "getFavouriteRecipesByIDs (table_env (constant_resolver ?none))
              (map (\<lambda>row. toString (recipeId row)) ?rows) = Inr ?none"
    by (simp add: table_env_def constant_resolver_def)
  show ?thesis
    by (simp add: handler_GET get_favourites_success [OF r1 n t1] get_favourites_success [OF r2 n t2]
          results_of_def)
qed

end
